theory Spec2Isabelle
  imports Main
begin

section \<open>Domain model (package authenticator)\<close>

text \<open>
  \<^verbatim>\<open>sql.NullString\<close> of Go's \<^verbatim>\<open>database/sql\<close>: the raw string and the flag that
  says the column is not NULL.
\<close>

record NullString =
  String :: string
  Valid :: bool

text \<open>The constants \<^verbatim>\<open>Phone\<close> and \<^verbatim>\<open>Email\<close> of type \<^verbatim>\<open>DeliveryMethod\<close>.\<close>

datatype DeliveryMethod = Phone | Email

text \<open>
  \<^verbatim>\<open>type TokenState string\<close> with its constants \<^verbatim>\<open>JWTPreAuthorized\<close> and
  \<^verbatim>\<open>JWTAuthorized\<close>; \<open>OtherState s\<close> is any other string, such as the empty state of
  a zero \<^verbatim>\<open>Token{}\<close>.
\<close>

datatype TokenState = JWTPreAuthorized | JWTAuthorized | OtherState string

text \<open>
  The struct \<^verbatim>\<open>User\<close>. The fields \<^verbatim>\<open>Phone\<close> and \<^verbatim>\<open>Email\<close> are written
  \<open>UPhone\<close> and \<open>UEmail\<close>, since the delivery methods already carry those names.
  Times are Unix seconds.
\<close>

record User =
  ID :: string
  UPhone :: NullString
  UEmail :: NullString
  Password :: string
  TFASecret :: string
  IsPhoneOTPAllowed :: bool
  IsEmailOTPAllowed :: bool
  IsTOTPAllowed :: bool
  IsDeviceAllowed :: bool
  IsVerified :: bool
  CreatedAt :: int
  UpdatedAt :: int

text \<open>\<^verbatim>\<open>func (u *User) DefaultOTPDelivery() DeliveryMethod\<close>\<close>

definition DefaultOTPDelivery :: "User \<Rightarrow> DeliveryMethod" where
  "DefaultOTPDelivery u = (if String (UEmail u) \<noteq> '''' then Email else Phone)"

text \<open>\<^verbatim>\<open>func (u *User) CanSendDefaultOTP() bool\<close>\<close>

definition CanSendDefaultOTP :: "User \<Rightarrow> bool" where
  "CanSendDefaultOTP u =
     (if IsDeviceAllowed u \<or> IsTOTPAllowed u then False
      else (let isOTPEnabled = IsPhoneOTPAllowed u \<or> IsEmailOTPAllowed u in isOTPEnabled))"

text \<open>\<^verbatim>\<open>func (u *User) DefaultName() string\<close>\<close>

definition DefaultName :: "User \<Rightarrow> string" where
  "DefaultName u = (if String (UEmail u) \<noteq> '''' then String (UEmail u) else String (UPhone u))"

text \<open>
  The constants of type \<^verbatim>\<open>TFAOptions\<close>, the struct \<^verbatim>\<open>LoginHistory\<close> and the struct
  \<^verbatim>\<open>Token\<close>. Of the embedded \<^verbatim>\<open>jwt.StandardClaims\<close> the token keeps its ID
  (\<open>TID\<close>) and its expiry (\<open>TExpiresAt\<close>). Field names that another struct already
  uses carry the initial of their struct.
\<close>

datatype TFAOptions = OTPEmail | OTPPhone | TOTP | Webauthn

record LoginHistory =
  LTokenID :: string
  LUserID :: string
  IsRevoked :: bool
  LExpiresAt :: int
  LCreatedAt :: int
  LUpdatedAt :: int

record Token =
  TID :: string
  TExpiresAt :: int
  ClientID :: string
  ClientIDHash :: string
  UserID :: string
  TEmail :: string
  TPhone :: string
  State :: TokenState
  CodeHash :: string
  Code :: string
  TFAOptions :: "TFAOptions list"

section \<open>Errors\<close>

text \<open>
  Go errors as values. A domain error carries one of the codes of the error taxonomy and
  a message for the client; \<open>PlainError\<close> is any other error value
  (\<^verbatim>\<open>fmt.Errorf\<close>, \<^verbatim>\<open>errors.New\<close>, a driver error); \<open>ErrNoRows\<close> is the
  sentinel \<^verbatim>\<open>sql.ErrNoRows\<close>; \<open>Wrap e m\<close> is \<^verbatim>\<open>errors.Wrap(e, m)\<close> of
  \<^verbatim>\<open>github.com/pkg/errors\<close>.
\<close>

datatype ErrCode = bad_request | invalid_token | unauthorized | not_found | rate_limited | internal

datatype error = DomainError ErrCode string | PlainError string | ErrNoRows | Wrap error string

text \<open>
  Modelled from the spec: the constructors \<^verbatim>\<open>auth.ErrBadRequest\<close> and
  \<^verbatim>\<open>auth.ErrInvalidToken\<close> are called by the sources at hand, their file
  (the domain errors of package authenticator) is not among them. They build the domain
  errors \<open>bad_request\<close> and \<open>invalid_token\<close> of the taxonomy.
\<close>

definition ErrBadRequest :: "string \<Rightarrow> error" where
  "ErrBadRequest m = DomainError bad_request m"

definition ErrInvalidToken :: "string \<Rightarrow> error" where
  "ErrInvalidToken m = DomainError invalid_token m"

text \<open>\<^verbatim>\<open>errors.Cause\<close>: the innermost error of a chain of wraps.\<close>

fun Cause :: "error \<Rightarrow> error" where
  "Cause (Wrap e m) = Cause e"
| "Cause (DomainError c m) = DomainError c m"
| "Cause (PlainError m) = PlainError m"
| "Cause ErrNoRows = ErrNoRows"

section \<open>Package contactchecker\<close>

text \<open>
  The parsers are library functions (\<^verbatim>\<open>net/mail\<close> and
  \<^verbatim>\<open>github.com/nyaruka/phonenumbers\<close>); the checkers take them as parameters.
  \<^verbatim>\<open>func IsPhoneValid(phone string) bool\<close>
\<close>

definition IsPhoneValid ::
  "(string \<Rightarrow> string \<Rightarrow> error + 'm) \<Rightarrow> ('m \<Rightarrow> bool) \<Rightarrow> string \<Rightarrow> bool" where
  "IsPhoneValid Parse IsValidNumber phone =
     (let countryISO = '''' in
      case Parse phone countryISO of
        Inl err \<Rightarrow> False
      | Inr meta \<Rightarrow> IsValidNumber meta)"

text \<open>\<^verbatim>\<open>func IsEmailValid(email string) bool\<close>\<close>

definition IsEmailValid :: "(string \<Rightarrow> error + 'a) \<Rightarrow> string \<Rightarrow> bool" where
  "IsEmailValid ParseAddress email =
     (case ParseAddress email of Inl err \<Rightarrow> False | Inr a \<Rightarrow> True)"

section \<open>Package loginapi: request decoding\<close>

text \<open>
  The struct \<^verbatim>\<open>loginRequest\<close>. A request body is given by what
  \<^verbatim>\<open>json.NewDecoder(r.Body).Decode\<close> makes of it: \<open>Inl m\<close> when decoding fails
  with the message \<open>m\<close>, \<open>Inr req\<close> when it fills the struct (a missing field is the
  empty string).
\<close>

record loginRequest =
  reqPassword :: string
  reqIdentity :: string
  reqType :: string

text \<open>\<^verbatim>\<open>func (r *loginRequest) UserAttribute() string\<close>\<close>

definition UserAttribute :: "loginRequest \<Rightarrow> string" where
  "UserAttribute r =
     (if reqType r = ''email'' then ''Email''
      else if reqType r = ''phone'' then ''Phone''
      else '''')"

text \<open>\<^verbatim>\<open>func decodeLoginRequest(r *http.Request) (*loginRequest, error)\<close>\<close>

definition decodeLoginRequest :: "string + loginRequest \<Rightarrow> error + loginRequest" where
  "decodeLoginRequest body =
     (case body of
        Inl err \<Rightarrow> Inl (Wrap (ErrBadRequest ''invalid JSON request'') err)
      | Inr req \<Rightarrow>
          if UserAttribute req = '''' then Inl (ErrBadRequest ''identity type must be email or phone'')
          else Inr req)"

section \<open>HTTP responses and the central error mapper\<close>

text \<open>
  A signed token stands for the JWT string of a token: the JWT encoding is outside the
  model. A response is a status code and a body; an error body is the envelope
  \<^verbatim>\<open>{"error": {"code": ..., "message": ...}}\<close>.
\<close>

datatype SignedToken = Signed Token

datatype ResponseBody =
  ErrorBody string string | TokenBody SignedToken | ChallengeBody string | EmptyBody

record Response =
  StatusCode :: nat
  Body :: ResponseBody

text \<open>
  Modelled from the spec: package httpapi (the central error mapper and the middleware)
  is not among the sources. The error taxonomy gives each code its HTTP status:
  \<open>bad_request\<close> 400, \<open>invalid_token\<close> 401, \<open>unauthorized\<close> 403, \<open>not_found\<close> 404,
  \<open>rate_limited\<close> 429, \<open>internal\<close> (anything else) 500.
\<close>

fun HTTPStatus :: "ErrCode \<Rightarrow> nat" where
  "HTTPStatus bad_request = 400"
| "HTTPStatus invalid_token = 401"
| "HTTPStatus unauthorized = 403"
| "HTTPStatus not_found = 404"
| "HTTPStatus rate_limited = 429"
| "HTTPStatus internal = 500"

fun CodeName :: "ErrCode \<Rightarrow> string" where
  "CodeName bad_request = ''bad_request''"
| "CodeName invalid_token = ''invalid_token''"
| "CodeName unauthorized = ''unauthorized''"
| "CodeName not_found = ''not_found''"
| "CodeName rate_limited = ''rate_limited''"
| "CodeName internal = ''internal''"

definition InternalResponse :: Response where
  "InternalResponse =
     \<lparr>StatusCode = 500, Body = ErrorBody ''internal'' ''An internal error occurred''\<rparr>"

text \<open>
  Modelled from the spec: the mapper of package httpapi, which turns the error a handler
  returns into the response. A domain error answers with its status, code and message;
  anything else is \<open>internal\<close>, its message sanitised. The mapper looks at the cause
  of the error: \<^verbatim>\<open>decodeLoginRequest\<close> wraps its \<open>bad_request\<close> in the decoder's
  message, and the tests of the repository expect 400 for an undecodable body.
\<close>

definition ErrorResponse :: "error \<Rightarrow> Response" where
  "ErrorResponse err =
     (case Cause err of
        DomainError c m \<Rightarrow>
          if c = internal then InternalResponse
          else \<lparr>StatusCode = HTTPStatus c, Body = ErrorBody (CodeName c) m\<rparr>
      | PlainError m \<Rightarrow> InternalResponse
      | ErrNoRows \<Rightarrow> InternalResponse
      | Wrap e m \<Rightarrow> InternalResponse)"

text \<open>
  The spec's words on logging, kept apart to be compared with what the repository's own
  test expects: "a structured log line (only for 5xx and unexpected errors; expected 4xx
  do not log)". The number of log lines these words give a response with a status code:
\<close>

definition spec_LogCalls :: "nat \<Rightarrow> nat" where
  "spec_LogCalls code = (if 500 \<le> code then 1 else 0)"

section \<open>The world of a request\<close>

text \<open>
  What a handler reads and changes: the rows of the table \<open>users\<close>, the calls made to \<^verbatim>\<open>MessagingService.Send\<close> (message, address,
  delivery method), the number of random values drawn so far, and the call counters
  that the test doubles of the repository keep (\<^verbatim>\<open>Calls.Create\<close>,
  \<^verbatim>\<open>Calls.ReCreate\<close>, \<^verbatim>\<open>Calls.Log\<close>).
\<close>

record World =
  users :: "User list"
  sent :: "(string \<times> string \<times> DeliveryMethod) list"
  drawn :: nat
  CreateCalls :: nat
  ReCreateCalls :: nat
  LogCalls :: nat

text \<open>
  What a handler is given from outside the model: the random source (\<open>rand n\<close> is the
  \<open>n\<close>-th value drawn: user IDs, token IDs, client IDs, OTP codes), the clock, the hash
  primitives, the library parsers of package contactchecker and the configured token
  lifetime. \<open>otpHash\<close> is the hash the OTP engine embeds for a code (SHA-512 over the
  code and its expiry; the expiry window itself is not modelled).
\<close>

record PhoneNumber =
  CountryCode :: int
  NationalNumber :: nat

record Deps =
  rand :: "nat \<Rightarrow> string"
  clock :: int
  sha512 :: "string \<Rightarrow> string"
  otpHash :: "string \<Rightarrow> string"
  hashPassword :: "string \<Rightarrow> string"
  ParseAddress :: "string \<Rightarrow> error + string"
  ParsePhone :: "string \<Rightarrow> string \<Rightarrow> error + PhoneNumber"
  IsValidNumber :: "PhoneNumber \<Rightarrow> bool"
  tokenExpiresIn :: int

text \<open>
  The failures of the collaborators, as the test doubles of the repository inject them
  (\<^verbatim>\<open>ByIdentityFn\<close>, \<^verbatim>\<open>CreateFn\<close>, the token service's \<^verbatim>\<open>CreateFn\<close> and
  \<^verbatim>\<open>SignFn\<close>, ...): for each call the error it returns, if any.
\<close>

record Faults =
  ByIdentityErr :: "error option"
  CreateErr :: "error option"
  ReCreateErr :: "error option"
  TokenCreateErr :: "error option"
  TokenSignErr :: "error option"
  SendErr :: "error option"

definition noFaults :: Faults where
  "noFaults = \<lparr>ByIdentityErr = None, CreateErr = None, ReCreateErr = None,
     TokenCreateErr = None, TokenSignErr = None, SendErr = None\<rparr>"

text \<open>
  Modelled from the spec: \<^verbatim>\<open>ToHandlerFunc\<close> of package httpapi, not among the
  sources: a handler's error goes through the mapper, its result is sent with the
  endpoint's success status. Each error is logged once: \<^verbatim>\<open>TestDeviceAPI_Create\<close>
  counts one call of the logger for each of its error responses (401, 401, 400, 500) and
  none for its successful request.
\<close>

definition ToHandlerFunc ::
  "nat \<Rightarrow> (error + ResponseBody) \<times> World \<Rightarrow> Response \<times> World" where
  "ToHandlerFunc successCode r =
     (case r of
        (Inl err, w) \<Rightarrow> (ErrorResponse err, w\<lparr>LogCalls := LogCalls w + 1\<rparr>)
      | (Inr body, w) \<Rightarrow> (\<lparr>StatusCode = successCode, Body = body\<rparr>, w))"

text \<open>
  Modelled from the spec: \<^verbatim>\<open>AuthMiddleware\<close> of package httpapi. The request either
  carries an authorization header or not, and \<open>validate\<close> is what
  \<^verbatim>\<open>TokenService.Validate\<close> returns for its token and client ID (the two fields of
  the repository's test tables).
\<close>

record AuthInput =
  header :: bool
  validate :: "error + Token"

definition AuthMiddleware :: "AuthInput \<Rightarrow> error + Token" where
  "AuthMiddleware a =
     (if \<not> header a then Inl (ErrInvalidToken ''user is not authenticated'')
      else validate a)"

section \<open>Collaborators\<close>

text \<open>
  Modelled from the spec: the user repository of package postgres, not among the
  sources; its interface \<^verbatim>\<open>UserRepository\<close> is. \<open>ByIdentity\<close> finds the row whose
  attribute (\<open>Email\<close>, \<open>Phone\<close> or \<open>ID\<close>) has the value, or returns
  \<^verbatim>\<open>sql.ErrNoRows\<close>; a NULL contact matches nothing.
\<close>

definition matchesIdentity :: "string \<Rightarrow> string \<Rightarrow> User \<Rightarrow> bool" where
  "matchesIdentity attribute v u =
     (if attribute = ''Email'' then Valid (UEmail u) \<and> String (UEmail u) = v
      else if attribute = ''Phone'' then Valid (UPhone u) \<and> String (UPhone u) = v
      else if attribute = ''ID'' then ID u = v
      else False)"

definition ByIdentity :: "Faults \<Rightarrow> World \<Rightarrow> string \<Rightarrow> string \<Rightarrow> error + User" where
  "ByIdentity fs w attribute v =
     (case ByIdentityErr fs of
        Some err \<Rightarrow> Inl err
      | None \<Rightarrow>
          (case find (matchesIdentity attribute v) (users w) of
             None \<Rightarrow> Inl ErrNoRows
           | Some u \<Rightarrow> Inr u))"

text \<open>
  Modelled from the spec: \<open>Create\<close> stores a new row under a fresh ID, with the hashed
  password and the timestamps; the caller's struct receives them.
\<close>

definition Create :: "Deps \<Rightarrow> Faults \<Rightarrow> User \<Rightarrow> World \<Rightarrow> (error + User) \<times> World" where
  "Create deps fs u w =
     (let w1 = w\<lparr>CreateCalls := CreateCalls w + 1\<rparr> in
      case CreateErr fs of
        Some err \<Rightarrow> (Inl err, w1)
      | None \<Rightarrow>
          (let u' = u\<lparr>ID := rand deps (drawn w), Password := hashPassword deps (Password u),
                      CreatedAt := clock deps, UpdatedAt := clock deps\<rparr>
           in (Inr u', w1\<lparr>users := users w @ [u'], drawn := drawn w + 1\<rparr>)))"

text \<open>
  Modelled from the spec: \<open>ReCreate\<close> "updates an existing, unverified User record, to
  treat the entry as a new unverified User registration" (the interface's comment):
  the row with the ID of the given user is replaced, under a fresh ID, with the hashed
  password and new timestamps.
\<close>

definition ReCreate :: "Deps \<Rightarrow> Faults \<Rightarrow> User \<Rightarrow> World \<Rightarrow> (error + User) \<times> World" where
  "ReCreate deps fs u w =
     (let w1 = w\<lparr>ReCreateCalls := ReCreateCalls w + 1\<rparr> in
      case ReCreateErr fs of
        Some err \<Rightarrow> (Inl err, w1)
      | None \<Rightarrow>
          (let u' = u\<lparr>ID := rand deps (drawn w), Password := hashPassword deps (Password u),
                      CreatedAt := clock deps, UpdatedAt := clock deps\<rparr>
           in (Inr u',
               w1\<lparr>users := map (\<lambda>x. if ID x = ID u \<and> \<not> IsVerified x then u' else x) (users w),
                  drawn := drawn w + 1\<rparr>)))"

text \<open>
  Modelled from the spec: \<^verbatim>\<open>MessagingService.Send\<close>; every call is recorded, as the
  test double counts it.
\<close>

definition Send ::
  "Faults \<Rightarrow> string \<Rightarrow> string \<Rightarrow> DeliveryMethod \<Rightarrow> World \<Rightarrow> error option \<times> World" where
  "Send fs message addr method w = (SendErr fs, w\<lparr>sent := sent w @ [(message, addr, method)]\<rparr>)"

text \<open>
  Modelled from the spec: the token service, not among the sources; its interface
  \<^verbatim>\<open>TokenService\<close> is. \<open>TokenCreate\<close> "mints a token with a fresh random ID, embeds
  the user ID, identity contacts, and enabled-TFA list", generates a client ID and stores
  its hash. \<open>CreateWithOTP\<close> "additionally generates an OTP code, embeds only its hash,
  returns the plaintext code alongside the token struct". \<open>Sign\<close> signs the token.
\<close>

definition tfaOptions :: "User \<Rightarrow> TFAOptions list" where
  "tfaOptions u =
     (if IsEmailOTPAllowed u then [OTPEmail] else []) @
     (if IsPhoneOTPAllowed u then [OTPPhone] else []) @
     (if IsTOTPAllowed u then [TOTP] else []) @
     (if IsDeviceAllowed u then [Webauthn] else [])"

definition TokenCreate ::
  "Deps \<Rightarrow> Faults \<Rightarrow> User \<Rightarrow> TokenState \<Rightarrow> World \<Rightarrow> (error + Token) \<times> World" where
  "TokenCreate deps fs user state w =
     (case TokenCreateErr fs of
        Some err \<Rightarrow> (Inl err, w)
      | None \<Rightarrow>
          (let tokenID = rand deps (drawn w); clientID = rand deps (drawn w + 1) in
           (Inr \<lparr>TID = tokenID, TExpiresAt = clock deps + tokenExpiresIn deps,
                 ClientID = clientID, ClientIDHash = sha512 deps clientID,
                 UserID = ID user, TEmail = String (UEmail user), TPhone = String (UPhone user),
                 State = state, CodeHash = '''', Code = '''', TFAOptions = tfaOptions user\<rparr>,
            w\<lparr>drawn := drawn w + 2\<rparr>)))"

definition CreateWithOTP ::
  "Deps \<Rightarrow> Faults \<Rightarrow> User \<Rightarrow> TokenState \<Rightarrow> DeliveryMethod \<Rightarrow> World \<Rightarrow> (error + Token) \<times> World" where
  "CreateWithOTP deps fs user state method w =
     (case TokenCreate deps fs user state w of
        (Inl err, w1) \<Rightarrow> (Inl err, w1)
      | (Inr tok, w1) \<Rightarrow>
          (let code = rand deps (drawn w1) in
           (Inr (tok\<lparr>CodeHash := otpHash deps code, Code := code\<rparr>), w1\<lparr>drawn := drawn w1 + 1\<rparr>)))"

definition Sign :: "Faults \<Rightarrow> Token \<Rightarrow> error + SignedToken" where
  "Sign fs tok = (case TokenSignErr fs of Some err \<Rightarrow> Inl err | None \<Rightarrow> Inr (Signed tok))"

section \<open>Package signupapi\<close>

text \<open>
  Modelled from the spec: the service of package signupapi (its handlers and its request
  decoding) is not among the sources; its tests, the interface \<^verbatim>\<open>SignUpAPI\<close> and
  the sibling \<^verbatim>\<open>decodeLoginRequest\<close> are. A signup request has the fields of a login
  request. Decoding rejects, as a bad request, a body that is not JSON, a type that is
  neither email nor phone, and an identity that is syntactically invalid for its type.
\<close>

definition decodeSignupRequest :: "Deps \<Rightarrow> string + loginRequest \<Rightarrow> error + loginRequest" where
  "decodeSignupRequest deps body =
     (case body of
        Inl err \<Rightarrow> Inl (Wrap (ErrBadRequest ''invalid JSON request'') err)
      | Inr req \<Rightarrow>
          if UserAttribute req = '''' then Inl (ErrBadRequest ''identity type must be email or phone'')
          else if reqType req = ''email'' \<and> \<not> IsEmailValid (ParseAddress deps) (reqIdentity req)
            then Inl (ErrBadRequest ''email address is invalid'')
          else if reqType req = ''phone'' \<and>
                  \<not> IsPhoneValid (ParsePhone deps) (IsValidNumber deps) (reqIdentity req)
            then Inl (ErrBadRequest ''phone number is invalid'')
          else Inr req)"

text \<open>The delivery method and the new, unverified user that a decoded request declares.\<close>

definition methodOf :: "loginRequest \<Rightarrow> DeliveryMethod" where
  "methodOf req = (if reqType req = ''email'' then Email else Phone)"

definition ToUser :: "loginRequest \<Rightarrow> User" where
  "ToUser req =
     \<lparr>ID = '''',
      UPhone = (if reqType req = ''phone'' then \<lparr>String = reqIdentity req, Valid = True\<rparr>
                else \<lparr>String = '''', Valid = False\<rparr>),
      UEmail = (if reqType req = ''email'' then \<lparr>String = reqIdentity req, Valid = True\<rparr>
                else \<lparr>String = '''', Valid = False\<rparr>),
      Password = reqPassword req, TFASecret = '''',
      IsPhoneOTPAllowed = False, IsEmailOTPAllowed = False, IsTOTPAllowed = False,
      IsDeviceAllowed = False, IsVerified = False, CreatedAt = 0, UpdatedAt = 0\<rparr>"

text \<open>
  Modelled from the spec: "Issue pre_authorized token carrying an OTP for the declared
  identity. Enqueue OTP message." The rows of \<^verbatim>\<open>TestSignUpAPI_SignUp\<close> fix the order:
  no message is sent when the token cannot be created or signed.
\<close>

definition issueWithOTP ::
  "Deps \<Rightarrow> Faults \<Rightarrow> User \<Rightarrow> DeliveryMethod \<Rightarrow> World \<Rightarrow> (error + SignedToken) \<times> World" where
  "issueWithOTP deps fs user method w =
     (case CreateWithOTP deps fs user JWTPreAuthorized method w of
        (Inl err, w1) \<Rightarrow> (Inl err, w1)
      | (Inr tok, w1) \<Rightarrow>
          (case Sign fs tok of
             Inl err \<Rightarrow> (Inl err, w1)
           | Inr signed \<Rightarrow>
               (case Send fs (Code tok) (DefaultName user) method w1 of
                  (Some err, w2) \<Rightarrow> (Inl err, w2)
                | (None, w2) \<Rightarrow> (Inr signed, w2))))"

text \<open>
  Modelled from the spec: \<open>SignUp\<close>. "If no user exists, create one with
  is_verified=false; if an unverified user exists with the same identity, call ReCreate.
  Bad request if identity is syntactically invalid or if a verified user exists." The
  rows of \<^verbatim>\<open>TestSignUpAPI_SignUp\<close> add: a failing user query ends the request
  before any user is created, and the handler opens no transaction.
\<close>

definition SignUp ::
  "Deps \<Rightarrow> Faults \<Rightarrow> string + loginRequest \<Rightarrow> World \<Rightarrow> (error + SignedToken) \<times> World" where
  "SignUp deps fs body w =
     (case decodeSignupRequest deps body of
        Inl err \<Rightarrow> (Inl err, w)
      | Inr req \<Rightarrow>
          (case ByIdentity fs w (UserAttribute req) (reqIdentity req) of
             Inr existing \<Rightarrow>
               if IsVerified existing then (Inl (ErrBadRequest ''cannot register user''), w)
               else
                 (case ReCreate deps fs ((ToUser req)\<lparr>ID := ID existing\<rparr>) w of
                    (Inl err, w1) \<Rightarrow> (Inl err, w1)
                  | (Inr user, w1) \<Rightarrow> issueWithOTP deps fs user (methodOf req) w1)
           | Inl err \<Rightarrow>
               if err = ErrNoRows then
                 (case Create deps fs (ToUser req) w of
                    (Inl err, w1) \<Rightarrow> (Inl err, w1)
                  | (Inr user, w1) \<Rightarrow> issueWithOTP deps fs user (methodOf req) w1)
               else (Inl err, w)))"

text \<open>The body of a handler that answers with a token.\<close>

definition tokenBody :: "(error + SignedToken) \<times> World \<Rightarrow> (error + ResponseBody) \<times> World" where
  "tokenBody r = (case r of (Inl err, w) \<Rightarrow> (Inl err, w) | (Inr signed, w) \<Rightarrow> (Inr (TokenBody signed), w))"

text \<open>\<^verbatim>\<open>POST /api/v1/signup\<close>: no authentication, 201 on success.\<close>

definition SignUpEndpoint ::
  "Deps \<Rightarrow> Faults \<Rightarrow> string + loginRequest \<Rightarrow> World \<Rightarrow> Response \<times> World" where
  "SignUpEndpoint deps fs body w = ToHandlerFunc 201 (tokenBody (SignUp deps fs body w))"

section \<open>Package deviceapi\<close>

text \<open>
  Modelled from the spec: the handler \<open>Create\<close> of package deviceapi is not among the
  sources; \<^verbatim>\<open>TestDeviceAPI_Create\<close> is. The handler looks the token's user up and
  begins a WebAuthn registration (\<open>BeginSignUp\<close> is what the WebAuthn service answers for
  the user). The endpoint requires a valid token.
\<close>

definition DeviceCreate ::
  "Faults \<Rightarrow> (User \<Rightarrow> error + string) \<Rightarrow> Token \<Rightarrow> World \<Rightarrow> (error + ResponseBody) \<times> World" where
  "DeviceCreate fs BeginSignUp token w =
     (case ByIdentity fs w ''ID'' (UserID token) of
        Inl err \<Rightarrow> (Inl err, w)
      | Inr user \<Rightarrow>
          (case BeginSignUp user of
             Inl err \<Rightarrow> (Inl err, w)
           | Inr challenge \<Rightarrow> (Inr (ChallengeBody challenge), w)))"

definition DeviceCreateEndpoint ::
  "Faults \<Rightarrow> (User \<Rightarrow> error + string) \<Rightarrow> AuthInput \<Rightarrow> World \<Rightarrow> Response \<times> World" where
  "DeviceCreateEndpoint fs BeginSignUp a w =
     (case AuthMiddleware a of
        Inl err \<Rightarrow> ToHandlerFunc 200 (Inl err, w)
      | Inr token \<Rightarrow> ToHandlerFunc 200 (DeviceCreate fs BeginSignUp token w))"

section \<open>The table of \<^verbatim>\<open>TestDeviceAPI_Create\<close>\<close>

text \<open>Go's zero values \<^verbatim>\<open>auth.User{}\<close> and \<^verbatim>\<open>auth.Token{}\<close>.\<close>

definition zeroUser :: User where
  "zeroUser =
     \<lparr>ID = '''', UPhone = \<lparr>String = '''', Valid = False\<rparr>, UEmail = \<lparr>String = '''', Valid = False\<rparr>,
      Password = '''', TFASecret = '''', IsPhoneOTPAllowed = False, IsEmailOTPAllowed = False,
      IsTOTPAllowed = False, IsDeviceAllowed = False, IsVerified = False,
      CreatedAt = 0, UpdatedAt = 0\<rparr>"

definition zeroToken :: Token where
  "zeroToken =
     \<lparr>TID = '''', TExpiresAt = 0, ClientID = '''', ClientIDHash = '''', UserID = '''',
      TEmail = '''', TPhone = '''', State = OtherState '''', CodeHash = '''', Code = '''',
      TFAOptions = []\<rparr>"

definition emptyWorld :: World where
  "emptyWorld =
     \<lparr>users = [], sent = [], drawn = 0, CreateCalls = 0, ReCreateCalls = 0,
      LogCalls = 0\<rparr>"

text \<open>
  The struct of the test's table and its five rows; each of the three functions of a row
  is given by the value it returns.
\<close>

record deviceCase =
  name :: string
  statusCode :: nat
  authHeader :: bool
  errMessage :: string
  loggerCount :: nat
  tokenValidateFn :: "error + Token"
  userFn :: "error + User"
  webauthnFn :: "error + string"

definition TestDeviceAPI_Create_cases :: "deviceCase list" where
  "TestDeviceAPI_Create_cases =
     [\<lparr>name = ''Authentication error with no token'', statusCode = 401, authHeader = False,
       errMessage = ''user is not authenticated'', loggerCount = 1,
       tokenValidateFn = Inr zeroToken, userFn = Inr zeroUser,
       webauthnFn = Inr ''{\"result\":\"challenge\"}''\<rparr>,
      \<lparr>name = ''Authentication error with bad token'', statusCode = 401, authHeader = True,
       errMessage = ''bad token'', loggerCount = 1,
       tokenValidateFn = Inl (ErrInvalidToken ''bad token''), userFn = Inr zeroUser,
       webauthnFn = Inr ''{\"result\":\"challenge\"}''\<rparr>,
      \<lparr>name = ''User query error'', statusCode = 400, authHeader = True,
       errMessage = ''no user found'', loggerCount = 1,
       tokenValidateFn = Inr zeroToken, userFn = Inl (ErrBadRequest ''no user found''),
       webauthnFn = Inr ''challenge''\<rparr>,
      \<lparr>name = ''Non domain error'', statusCode = 500, authHeader = True,
       errMessage = ''An internal error occurred'', loggerCount = 1,
       tokenValidateFn = Inr zeroToken, userFn = Inl (PlainError ''whoops''),
       webauthnFn = Inr ''{\"result\":\"challenge\"}''\<rparr>,
      \<lparr>name = ''Successful request'', statusCode = 200, authHeader = True,
       errMessage = '''', loggerCount = 0,
       tokenValidateFn = Inr zeroToken, userFn = Inr zeroUser,
       webauthnFn = Inr ''{\"result\":\"challenge\"}''\<rparr>]"

text \<open>
  The body of the test's loop: the doubles are installed (a user the double returns is
  the one row of the table, an error it returns is the failure of the query), the
  request is served, and the test reads the status code and the logger's call count.
\<close>

definition installUserFn :: "error + User \<Rightarrow> Faults \<times> World" where
  "installUserFn r =
     (case r of
        Inl err \<Rightarrow> (noFaults\<lparr>ByIdentityErr := Some err\<rparr>, emptyWorld)
      | Inr u \<Rightarrow> (noFaults, emptyWorld\<lparr>users := [u]\<rparr>))"

definition runDeviceCase :: "deviceCase \<Rightarrow> Response \<times> World" where
  "runDeviceCase tc =
     (case installUserFn (userFn tc) of
        (fs, w) \<Rightarrow>
          DeviceCreateEndpoint fs (\<lambda>u. webauthnFn tc)
            \<lparr>header = authHeader tc, validate = tokenValidateFn tc\<rparr> w)"

text \<open>
  The assertions of the test on a served row: the recorded status code is the row's
  \<open>statusCode\<close> and the logger was called \<open>loggerCount\<close> times. What is observed of the
  handler stack under test is the pair of the two.
\<close>

definition TestDeviceAPI_Create_passes :: "deviceCase \<Rightarrow> nat \<times> nat \<Rightarrow> bool" where
  "TestDeviceAPI_Create_passes tc observed =
     (case observed of (code, logCalls) \<Rightarrow> code = statusCode tc \<and> logCalls = loggerCount tc)"

definition observe :: "Response \<times> World \<Rightarrow> nat \<times> nat" where
  "observe r = (StatusCode (fst r), LogCalls (snd r))"

section \<open>The requests of \<^verbatim>\<open>TestSignUpAPI_SignUp\<close>\<close>

text \<open>
  The body of the test's requests, and stand-ins for what lies outside the model, to run
  it on them: the address parser accepts a string with an \<open>@\<close>, the phone parser one
  that starts with \<open>+\<close>; the random source counts in unary.
\<close>

definition janeRequest :: loginRequest where
  "janeRequest =
     \<lparr>reqPassword = ''swordfish'', reqIdentity = ''jane@example.com'', reqType = ''email''\<rparr>"

definition testDeps :: Deps where
  "testDeps =
     \<lparr>rand = (\<lambda>n. replicate (Suc n) CHR ''1''),
      clock = 1600000000,
      sha512 = (\<lambda>s. ''sha512:'' @ s),
      otpHash = (\<lambda>s. ''otp:'' @ s),
      hashPassword = (\<lambda>s. ''hash:'' @ s),
      ParseAddress = (\<lambda>s. if CHR ''@'' \<in> set s then Inr s else Inl (PlainError ''mail: missing @'')),
      ParsePhone = (\<lambda>s region. if take 1 s = ''+'' then Inr \<lparr>CountryCode = 1, NationalNumber = 0\<rparr>
                                else Inl (PlainError ''invalid country code'')),
      IsValidNumber = (\<lambda>m. True),
      tokenExpiresIn = 1200\<rparr>"

text \<open>The row of table \<open>users\<close> that stands for a user the double returns as verified.\<close>

definition janeVerified :: User where
  "janeVerified = zeroUser\<lparr>ID := ''01'', UEmail := \<lparr>String = ''jane@example.com'', Valid = True\<rparr>,
                          IsVerified := True\<rparr>"

text \<open>
  What \<^verbatim>\<open>TestSignUpAPI_SignUp\<close> reads after a request: the status code, the calls of
  \<^verbatim>\<open>UserRepository.Create\<close> and \<^verbatim>\<open>ReCreate\<close>, and the calls of
  \<^verbatim>\<open>MessagingService.Send\<close>.
\<close>

definition observeSignUp :: "Response \<times> World \<Rightarrow> nat \<times> nat \<times> nat \<times> nat" where
  "observeSignUp r =
     (StatusCode (fst r), CreateCalls (snd r), ReCreateCalls (snd r), length (sent (snd r)))"

section \<open>Properties of the user model\<close>

text \<open>
  C3: for every user, \<open>CanSendDefaultOTP\<close> is true if and only if one of the two OTP
  factors (phone or email) is enabled and neither TOTP nor a device is enabled.
\<close>

theorem CanSendDefaultOTP_iff:
  "CanSendDefaultOTP u =
     ((IsPhoneOTPAllowed u \<or> IsEmailOTPAllowed u) \<and> \<not> IsTOTPAllowed u \<and> \<not> IsDeviceAllowed u)"
  by (auto simp: CanSendDefaultOTP_def)

text \<open>
  C7: for every user, the default OTP delivery method is email whenever the user has an
  email address (the string of the email field is not empty), and phone otherwise.
\<close>

theorem DefaultOTPDelivery_email_preferred:
  "(String (UEmail u) \<noteq> '''' \<longrightarrow> DefaultOTPDelivery u = Email)
   \<and> (String (UEmail u) = '''' \<longrightarrow> DefaultOTPDelivery u = Phone)"
  by (simp add: DefaultOTPDelivery_def)

theorem DefaultOTPDelivery_email_preferred_witness:
  "DefaultOTPDelivery (zeroUser\<lparr>UEmail := \<lparr>String = ''jane@example.com'', Valid = True\<rparr>,
                                UPhone := \<lparr>String = ''+15555550100'', Valid = True\<rparr>\<rparr>) = Email
   \<and> DefaultOTPDelivery (zeroUser\<lparr>UPhone := \<lparr>String = ''+15555550100'', Valid = True\<rparr>\<rparr>) = Phone"
  using DefaultOTPDelivery_email_preferred
          [of "zeroUser\<lparr>UEmail := \<lparr>String = ''jane@example.com'', Valid = True\<rparr>,
                        UPhone := \<lparr>String = ''+15555550100'', Valid = True\<rparr>\<rparr>"]
        DefaultOTPDelivery_email_preferred
          [of "zeroUser\<lparr>UPhone := \<lparr>String = ''+15555550100'', Valid = True\<rparr>\<rparr>"]
  by (simp add: zeroUser_def)

text \<open>
  C10: for every user, the preference of email over phone in \<open>DefaultOTPDelivery\<close> and
  \<open>DefaultName\<close> is decided by the string of the email field alone: a non-empty string
  gives email (as delivery method and as name), an empty one gives phone, and changing the
  NULL indicator \<open>Valid\<close> of the email changes neither result. So a user with a non-empty
  email string and \<open>Valid = False\<close> is still treated as having an email.
\<close>

theorem email_preference_ignores_Valid:
  "(String (UEmail u) \<noteq> '''' \<longrightarrow>
        DefaultOTPDelivery u = Email \<and> DefaultName u = String (UEmail u))
   \<and> (String (UEmail u) = '''' \<longrightarrow>
        DefaultOTPDelivery u = Phone \<and> DefaultName u = String (UPhone u))
   \<and> DefaultOTPDelivery (u\<lparr>UEmail := (UEmail u)\<lparr>Valid := b\<rparr>\<rparr>) = DefaultOTPDelivery u
   \<and> DefaultName (u\<lparr>UEmail := (UEmail u)\<lparr>Valid := b\<rparr>\<rparr>) = DefaultName u"
  by (simp add: DefaultOTPDelivery_def DefaultName_def)

theorem email_preference_ignores_Valid_witness:
  "DefaultOTPDelivery (zeroUser\<lparr>UEmail := \<lparr>String = ''jane@example.com'', Valid = False\<rparr>,
                                UPhone := \<lparr>String = ''+15555550100'', Valid = True\<rparr>\<rparr>) = Email
   \<and> DefaultName (zeroUser\<lparr>UEmail := \<lparr>String = ''jane@example.com'', Valid = False\<rparr>,
                            UPhone := \<lparr>String = ''+15555550100'', Valid = True\<rparr>\<rparr>)
       = ''jane@example.com''"
  using email_preference_ignores_Valid
          [where b = True and u = "zeroUser\<lparr>UEmail := \<lparr>String = ''jane@example.com'', Valid = False\<rparr>,
                        UPhone := \<lparr>String = ''+15555550100'', Valid = True\<rparr>\<rparr>"]
  by (simp add: zeroUser_def)

section \<open>Logging of error responses\<close>

text \<open>
  The modelled handler stack passes \<^verbatim>\<open>TestDeviceAPI_Create\<close>: on each of the five
  rows it answers with the expected status code and calls the logger as often as the
  test demands.
\<close>

lemma runDeviceCase_passes:
  "\<forall>tc \<in> set TestDeviceAPI_Create_cases.
     TestDeviceAPI_Create_passes tc (observe (runDeviceCase tc))"
  by (simp add: TestDeviceAPI_Create_cases_def TestDeviceAPI_Create_passes_def observe_def
      runDeviceCase_def installUserFn_def DeviceCreateEndpoint_def DeviceCreate_def
      AuthMiddleware_def ToHandlerFunc_def ErrorResponse_def InternalResponse_def
      ErrInvalidToken_def ErrBadRequest_def ByIdentity_def matchesIdentity_def noFaults_def
      emptyWorld_def zeroUser_def zeroToken_def)

text \<open>
  C6, as the repository's test has it: on every request of \<^verbatim>\<open>TestDeviceAPI_Create\<close>, a
  handler stack that passes the test emits exactly one log line when the response is an
  error, an expected 4xx (400, 401) as much as a 500, and none when the request
  succeeds.
\<close>

theorem error_responses_logged_once:
  "\<forall>tc \<in> set TestDeviceAPI_Create_cases. \<forall>code logCalls.
     TestDeviceAPI_Create_passes tc (code, logCalls) \<longrightarrow>
       logCalls = (if 400 \<le> code then 1 else 0)"
  by (simp add: TestDeviceAPI_Create_cases_def TestDeviceAPI_Create_passes_def)

theorem error_responses_logged_once_witness:
  "TestDeviceAPI_Create_passes (TestDeviceAPI_Create_cases ! 2)
     (observe (runDeviceCase (TestDeviceAPI_Create_cases ! 2)))
   \<and> observe (runDeviceCase (TestDeviceAPI_Create_cases ! 2)) = (400, 1)"
proof -
  have mem: "TestDeviceAPI_Create_cases ! 2 \<in> set TestDeviceAPI_Create_cases"
    by (simp add: TestDeviceAPI_Create_cases_def)
  have run: "observe (runDeviceCase (TestDeviceAPI_Create_cases ! 2)) =
             (StatusCode (fst (runDeviceCase (TestDeviceAPI_Create_cases ! 2))),
              LogCalls (snd (runDeviceCase (TestDeviceAPI_Create_cases ! 2))))"
    by (simp add: observe_def)
  have status: "StatusCode (fst (runDeviceCase (TestDeviceAPI_Create_cases ! 2))) = 400"
    by (simp add: TestDeviceAPI_Create_cases_def runDeviceCase_def installUserFn_def
        DeviceCreateEndpoint_def AuthMiddleware_def DeviceCreate_def ByIdentity_def
        noFaults_def ToHandlerFunc_def ErrorResponse_def ErrBadRequest_def)
  have passes: "TestDeviceAPI_Create_passes (TestDeviceAPI_Create_cases ! 2)
                  (observe (runDeviceCase (TestDeviceAPI_Create_cases ! 2)))"
    using runDeviceCase_passes mem by blast
  from error_responses_logged_once mem passes run status
  have "LogCalls (snd (runDeviceCase (TestDeviceAPI_Create_cases ! 2))) = 1"
    by (metis le_refl)
  with passes run status show ?thesis by simp
qed

text \<open>
  C6 as stated fails on the row "User query error" of \<^verbatim>\<open>TestDeviceAPI_Create\<close>: the
  expected response is a 400, the test demands one call of the logger, and a stack that
  logs as the claim says (no line for an expected 4xx) does not pass.
\<close>

theorem expected_4xx_is_logged_counterexample:
  "statusCode (TestDeviceAPI_Create_cases ! 2) = 400
   \<and> loggerCount (TestDeviceAPI_Create_cases ! 2) = 1
   \<and> userFn (TestDeviceAPI_Create_cases ! 2) = Inl (ErrBadRequest ''no user found'')
   \<and> spec_LogCalls 400 = 0
   \<and> TestDeviceAPI_Create_passes (TestDeviceAPI_Create_cases ! 2) (400, 1)
   \<and> \<not> TestDeviceAPI_Create_passes (TestDeviceAPI_Create_cases ! 2) (400, spec_LogCalls 400)"
  by (simp add: TestDeviceAPI_Create_cases_def TestDeviceAPI_Create_passes_def spec_LogCalls_def)

end
